theory Spec2Isabelle
  imports Complex_Main
begin

section \<open>Time utilities (scheduler-core/src/utils/time_utils.py)\<close>

text \<open>
  Python's \<open>datetime.time\<close> as a record of its hour, minute and second fields (the
  microsecond field plays no role in the functions embedded here). A \<open>timedelta\<close> is its
  total number of microseconds. Python floats are idealised as rationals: every float
  that occurs on the paths proved below is an integer far below \<open>2 ^ 53\<close>.
\<close>

record pytime =
  hour :: int
  minute :: int
  second :: int

definition mk_time :: "int \<Rightarrow> int \<Rightarrow> pytime" where
  "mk_time h m = \<lparr>hour = h, minute = m, second = 0\<rparr>"

text \<open>The argument of \<open>total_minutes_to_time\<close>: \<open>None\<close>, an int, a float, or anything else.\<close>

datatype minutes_arg = MNone | MInt int | MFloat rat | MOther

text \<open>Python's \<open>round\<close> on a float: to the nearest integer, ties to the even one.\<close>

definition py_round :: "rat \<Rightarrow> int" where
  "py_round x =
     (let f = \<lfloor>x\<rfloor>; d = x - of_int f
      in if d < 1 / 2 then f
         else if 1 / 2 < d then f + 1
         else if even f then f else f + 1)"

definition time_to_total_minutes :: "pytime \<Rightarrow> int" where
  "time_to_total_minutes t = hour t * 60 + minute t"

definition total_minutes_to_time :: "minutes_arg \<Rightarrow> pytime option" where
  "total_minutes_to_time a =
     (case (case a of MNone \<Rightarrow> None | MOther \<Rightarrow> None
                    | MInt i \<Rightarrow> Some (py_round (of_int i))
                    | MFloat x \<Rightarrow> Some (py_round x)) of
        None \<Rightarrow> None
      | Some total_minutes_int \<Rightarrow>
          (let total_minutes_clamped = max 0 (min 1440 total_minutes_int)
           in if total_minutes_clamped = 1440 then Some (mk_time 0 0)
              else Some (mk_time (total_minutes_clamped div 60) (total_minutes_clamped mod 60))))"

subsection \<open>Strings, durations and the duration parser\<close>


definition is_digit :: "char \<Rightarrow> bool" where
  "is_digit c = (48 \<le> (of_char c :: nat) \<and> (of_char c :: nat) \<le> 57)"

definition is_space :: "char \<Rightarrow> bool" where
  "is_space c = (let n = (of_char c :: nat) in (9 \<le> n \<and> n \<le> 13) \<or> (28 \<le> n \<and> n \<le> 32))"

definition digit_char :: "nat \<Rightarrow> char" where
  "digit_char d = char_of (48 + d)"

definition digit_val :: "char \<Rightarrow> nat" where
  "digit_val c = of_char c - 48"

function str_nat :: "nat \<Rightarrow> string" where
  "str_nat n = (if n < 10 then [digit_char n] else str_nat (n div 10) @ [digit_char (n mod 10)])"
  by pat_completeness auto
termination
  by (relation "measure id") auto

definition dec_value :: "string \<Rightarrow> nat" where
  "dec_value s = foldl (\<lambda>acc c. 10 * acc + digit_val c) 0 s"

definition py_lower :: "string \<Rightarrow> string" where
  "py_lower s = map (\<lambda>c. let n = (of_char c :: nat) in if 65 \<le> n \<and> n \<le> 90 then char_of (n + 32) else c) s"

definition py_strip :: "string \<Rightarrow> string" where
  "py_strip s = rev (dropWhile is_space (rev (dropWhile is_space s)))"



definition is_unit :: "char \<Rightarrow> bool" where
  "is_unit c = (c = CHR ''h'' \<or> c = CHR ''m'' \<or> c = CHR ''s'')"

text \<open>One match of the pattern at the head of the string: the two groups and the rest.\<close>

definition frac_part :: "string \<Rightarrow> string \<times> string" where
  "frac_part r =
     (case r of
        [] \<Rightarrow> ([], r)
      | c # t \<Rightarrow>
          if c = CHR ''.'' \<and> takeWhile is_digit t \<noteq> []
          then (c # takeWhile is_digit t, dropWhile is_digit t)
          else ([], r))"

definition unit_part :: "string \<Rightarrow> string \<times> string" where
  "unit_part r =
     (case r of
        [] \<Rightarrow> ([], r)
      | c # t \<Rightarrow> if is_unit c then ([c], t) else ([], r))"

definition match_at :: "string \<Rightarrow> ((string \<times> string) \<times> string) option" where
  "match_at s =
     (let ds = takeWhile is_digit s; r1 = dropWhile is_digit s
      in if ds = [] then None
         else
           let (frac, r2) = frac_part r1;
               r3 = dropWhile is_space r2;
               (u, r4) = unit_part r3
           in Some ((ds @ frac, u), r4))"

lemma frac_part_shorter: "length (snd (frac_part r)) \<le> length r"
  using length_dropWhile_le [of is_digit "tl r"]
  by (cases r) (auto simp: frac_part_def)

lemma unit_part_shorter: "length (snd (unit_part r)) \<le> length r"
  by (cases r) (auto simp: unit_part_def)

lemma match_at_shorter: "match_at s = Some (g, r) \<Longrightarrow> length r < length s"
proof -
  assume m: "match_at s = Some (g, r)"
  let ?r1 = "dropWhile is_digit s"
  let ?r3 = "dropWhile is_space (snd (frac_part ?r1))"
  from m have ne: "takeWhile is_digit s \<noteq> []"
    by (auto simp: match_at_def Let_def split: if_splits)
  have "length (takeWhile is_digit s) + length ?r1 = length s"
    by (metis length_append takeWhile_dropWhile_id)
  with ne have l1: "length ?r1 < length s"
    by (cases "takeWhile is_digit s") auto
  from m ne have r: "r = snd (unit_part ?r3)"
    by (auto simp: match_at_def Let_def split: prod.splits)
  have "length r \<le> length ?r3"
    unfolding r by (rule unit_part_shorter)
  also have "\<dots> \<le> length (snd (frac_part ?r1))"
    by (rule length_dropWhile_le)
  also have "\<dots> \<le> length ?r1"
    by (rule frac_part_shorter)
  finally show ?thesis using l1 by simp
qed

function findall :: "string \<Rightarrow> (string \<times> string) list" where
  "findall s =
     (case s of
        [] \<Rightarrow> []
      | c # t \<Rightarrow>
          (case match_at s of
             None \<Rightarrow> findall t
           | Some (g, r) \<Rightarrow> g # findall r))"
  by pat_completeness auto
termination
  by (relation "measure length") (auto dest: match_at_shorter)


datatype timedelta = Timedelta (microseconds: int)

definition total_seconds :: "timedelta \<Rightarrow> rat" where
  "total_seconds d = of_int (microseconds d) / 1000000"

definition py_int :: "rat \<Rightarrow> int" where
  "py_int x = (if 0 \<le> x then \<lfloor>x\<rfloor> else \<lceil>x\<rceil>)"

definition timedelta_minutes :: "int \<Rightarrow> timedelta option" where
  "timedelta_minutes n =
     (if - 999999999 * 1440 \<le> n \<and> n < 1000000000 * 1440
      then Some (Timedelta (n * 60000000)) else None)"

definition str_int :: "int \<Rightarrow> string" where
  "str_int i = (if i < 0 then CHR ''-'' # str_nat (nat (- i)) else str_nat (nat i))"

fun join_space :: "string list \<Rightarrow> string" where
  "join_space [] = []"
| "join_space [p] = p"
| "join_space (p # ps) = p @ '' '' @ join_space ps"

definition format_timedelta :: "timedelta option \<Rightarrow> bool \<Rightarrow> string" where
  "format_timedelta delta show_seconds =
     (case delta of
        None \<Rightarrow> ''N/A''
      | Some d \<Rightarrow>
          (let signed_seconds = py_int (total_seconds d);
               sign = (if signed_seconds < 0 then ''-'' else []);
               total = \<bar>signed_seconds\<bar>;
               hours = total div 3600;
               remainder = total mod 3600;
               minutes = remainder div 60;
               seconds = remainder mod 60;
               parts0 = (if 0 < hours then [str_int hours @ ''h''] else [])
                      @ (if 0 < minutes then [str_int minutes @ ''m''] else []);
               parts = (if parts0 = [] \<and> show_seconds \<and> 0 < seconds
                        then [str_int seconds @ ''s''] else parts0)
           in if parts = [] \<and> total = 0 then ''0m''
              else if parts = [] then (if 0 < total then sign @ ''<1m'' else ''0m'')
              else sign @ join_space parts))"

definition float_of_decimal :: "string \<Rightarrow> rat" where
  "float_of_decimal v =
     of_nat (dec_value (takeWhile is_digit v)) +
     (case dropWhile is_digit v of
        [] \<Rightarrow> 0
      | c # fs \<Rightarrow> of_nat (dec_value fs) / 10 ^ length fs)"

fun minutes_of_match :: "string \<times> string \<Rightarrow> rat" where
  "minutes_of_match (value_str, unit) =
     (if unit = ''h'' then float_of_decimal value_str * 60
      else if unit = ''m'' then float_of_decimal value_str
      else if unit = ''s'' then 0
      else float_of_decimal value_str)"

definition remove_spaces :: "string \<Rightarrow> string" where
  "remove_spaces s = filter (\<lambda>c. c \<noteq> CHR '' '') s"

fun digitpart_tail :: "string \<Rightarrow> string" where
  "digitpart_tail [] = []"
| "digitpart_tail [c] = (if is_digit c then [] else [c])"
| "digitpart_tail (c # d # t) =
     (if is_digit c then digitpart_tail (d # t)
      else if c = CHR ''_'' \<and> is_digit d then digitpart_tail t
      else c # d # t)"

definition digitpart :: "string \<Rightarrow> string option" where
  "digitpart s = (case s of [] \<Rightarrow> None | c # t \<Rightarrow> if is_digit c then Some (digitpart_tail t) else None)"

definition skip_sign :: "string \<Rightarrow> string" where
  "skip_sign s = (case s of [] \<Rightarrow> [] | c # t \<Rightarrow> if c = CHR ''+'' \<or> c = CHR ''-'' then t else s)"

definition exponent_ok :: "string \<Rightarrow> bool" where
  "exponent_ok s =
     (case s of
        [] \<Rightarrow> True
      | c # t \<Rightarrow> (c = CHR ''e'' \<or> c = CHR ''E'') \<and> digitpart (skip_sign t) = Some [])"

definition floatnumber_ok :: "string \<Rightarrow> bool" where
  "floatnumber_ok s =
     (case digitpart s of
        Some r \<Rightarrow>
          (case r of
             [] \<Rightarrow> True
           | c # t \<Rightarrow>
               if c = CHR ''.''
               then (case digitpart t of Some r' \<Rightarrow> exponent_ok r' | None \<Rightarrow> exponent_ok t)
               else exponent_ok r)
      | None \<Rightarrow>
          (case s of
             [] \<Rightarrow> False
           | c # t \<Rightarrow>
               c = CHR ''.'' \<and> (case digitpart t of Some r' \<Rightarrow> exponent_ok r' | None \<Rightarrow> False)))"

definition is_float_literal :: "string \<Rightarrow> bool" where
  "is_float_literal s =
     (let b = skip_sign (py_strip s); l = py_lower b
      in l = ''inf'' \<or> l = ''infinity'' \<or> l = ''nan'' \<or> floatnumber_ok b)"

definition parse_duration_string :: "string option \<Rightarrow> timedelta option" where
  "parse_duration_string duration_str =
     (case duration_str of
        None \<Rightarrow> None
      | Some s \<Rightarrow>
          if py_strip s = [] then None
          else
            let duration_str_processed = py_strip (py_lower s);
                matches = findall duration_str_processed
            in if matches = [] then None
               else
                 let total_minutes = sum_list (map minutes_of_match matches);
                     processed_string_parts = concat (map (\<lambda>(v, u). v @ u) matches)
                 in if length (remove_spaces processed_string_parts)
                         \<noteq> length (remove_spaces duration_str_processed)
                       \<and> \<not> is_float_literal duration_str_processed
                    then None
                    else
                      let total_minutes_rounded = py_round total_minutes
                      in if total_minutes_rounded < 0 then None
                         else timedelta_minutes total_minutes_rounded)"




section \<open>Properties of the time utilities\<close>

lemma py_round_of_int [simp]: "py_round (of_int i) = i"
  by (simp add: py_round_def)

lemma py_round_numeral [simp]: "py_round (numeral k) = numeral k"
  using py_round_of_int [of "numeral k"] by simp

lemma py_round_neg_numeral [simp]: "py_round (- numeral k) = - numeral k"
  using py_round_of_int [of "- numeral k"] by simp

lemma py_round_zero [simp]: "py_round 0 = 0"
  using py_round_of_int [of 0] by simp

lemma py_round_one [simp]: "py_round 1 = 1"
  using py_round_of_int [of 1] by simp

lemma total_minutes_to_time_int:
  "total_minutes_to_time (MInt i) =
     (if 1440 \<le> i then Some (mk_time 0 0)
      else if i < 0 then Some (mk_time 0 0)
      else Some (mk_time (i div 60) (i mod 60)))"
  by (simp add: total_minutes_to_time_def Let_def max_def min_def)




declare findall.simps [simp del]

declare str_nat.simps [simp del]

lemma is_digit_digit_char: "d < 10 \<Longrightarrow> is_digit (digit_char d)"
  by (simp add: is_digit_def digit_char_def)

lemma digit_val_digit_char: "d < 10 \<Longrightarrow> digit_val (digit_char d) = d"
  by (simp add: digit_val_def digit_char_def)

lemma str_nat_small: "n < 10 \<Longrightarrow> str_nat n = [digit_char n]"
  by (subst str_nat.simps) simp

lemma str_nat_big: "\<not> n < 10 \<Longrightarrow> str_nat n = str_nat (n div 10) @ [digit_char (n mod 10)]"
  by (subst str_nat.simps) simp

lemma str_nat_digits: "c \<in> set (str_nat n) \<Longrightarrow> is_digit c"
proof (induction n arbitrary: c rule: str_nat.induct)
  case (1 n)
  show ?case
  proof (cases "n < 10")
    case True
    with "1.prems" show ?thesis by (simp add: str_nat_small is_digit_digit_char)
  next
    case False
    with "1.prems" "1.IH" show ?thesis
      by (auto simp: str_nat_big is_digit_digit_char)
  qed
qed

lemma str_nat_nonempty: "str_nat n \<noteq> []"
  by (subst str_nat.simps) simp

lemma dec_value_snoc: "dec_value (s @ [c]) = 10 * dec_value s + digit_val c"
  by (simp add: dec_value_def)

lemma dec_value_str_nat: "dec_value (str_nat n) = n"
proof (induction n rule: str_nat.induct)
  case (1 n)
  show ?case
  proof (cases "n < 10")
    case True
    then show ?thesis
      by (simp add: str_nat_small dec_value_def digit_val_digit_char)
  next
    case False
    with "1.IH" show ?thesis
      by (simp add: str_nat_big dec_value_snoc digit_val_digit_char)
  qed
qed

lemma takeWhile_digits:
  "(\<And>c. c \<in> set ds \<Longrightarrow> is_digit c) \<Longrightarrow> \<not> is_digit x \<Longrightarrow> takeWhile is_digit (ds @ x # r) = ds"
  by (simp add: takeWhile_append2)

lemma dropWhile_digits:
  "(\<And>c. c \<in> set ds \<Longrightarrow> is_digit c) \<Longrightarrow> \<not> is_digit x \<Longrightarrow> dropWhile is_digit (ds @ x # r) = x # r"
  by (simp add: dropWhile_append2)

lemma match_at_unit:
  assumes "\<And>c. c \<in> set ds \<Longrightarrow> is_digit c" and "ds \<noteq> []" and "u = CHR ''h'' \<or> u = CHR ''m''"
  shows "match_at (ds @ u # r) = Some ((ds, [u]), r)"
proof -
  from assms(3) have nd: "\<not> is_digit u" and ns: "\<not> is_space u" and un: "is_unit u" and dot: "u \<noteq> CHR ''.''"
    by (auto simp: is_digit_def is_space_def is_unit_def)
  show ?thesis
    using assms(2) ns un dot
    by (simp add: match_at_def takeWhile_digits [OF assms(1) nd] dropWhile_digits [OF assms(1) nd]
        frac_part_def unit_part_def)
qed

lemma findall_Cons:
  "findall (c # t) =
     (case match_at (c # t) of None \<Rightarrow> findall t | Some (g, r) \<Rightarrow> g # findall r)"
  by (subst findall.simps) simp

lemma findall_unit:
  assumes "\<And>c. c \<in> set ds \<Longrightarrow> is_digit c" and "ds \<noteq> []" and "u = CHR ''h'' \<or> u = CHR ''m''"
  shows "findall (ds @ u # r) = (ds, [u]) # findall r"
proof -
  from assms(2) obtain d ds' where ds: "ds = d # ds'" by (cases ds) auto
  have m: "match_at (d # ds' @ u # r) = Some ((ds, [u]), r)"
    using match_at_unit [OF assms, of r] by (simp add: ds)
  show ?thesis
    unfolding ds append_Cons findall_Cons m by (simp add: ds)
qed

lemma findall_Nil: "findall [] = []"
  by (subst findall.simps) simp

lemma findall_space: "findall (CHR '' '' # r) = findall r"
  by (simp add: findall_Cons match_at_def is_digit_def)

lemma float_of_decimal_str_nat: "float_of_decimal (str_nat n) = of_nat n"
proof -
  have tw: "takeWhile is_digit (str_nat n) = str_nat n"
    by (simp add: takeWhile_eq_all_conv str_nat_digits)
  have dw: "dropWhile is_digit (str_nat n) = []"
    by (simp add: str_nat_digits)
  show ?thesis
    unfolding float_of_decimal_def tw dw by (simp add: dec_value_str_nat)
qed


lemma digit_not_space: "is_digit c \<Longrightarrow> \<not> is_space c"
  by (auto simp: is_digit_def is_space_def Let_def)

lemma digit_not_blank: "is_digit c \<Longrightarrow> c \<noteq> CHR '' ''"
  by (auto simp: is_digit_def)

lemma digit_lower: "is_digit c \<Longrightarrow> \<not> (65 \<le> (of_char c :: nat) \<and> (of_char c :: nat) \<le> 90)"
  by (auto simp: is_digit_def)

lemma py_strip_id:
  assumes "s \<noteq> []" and "\<not> is_space (hd s)" and "\<not> is_space (last s)"
  shows "py_strip s = s"
proof -
  from assms(1,2) have a: "dropWhile is_space s = s" by (cases s) auto
  from assms(1,3) have b: "dropWhile is_space (rev s) = rev s"
    by (cases "rev s") (auto simp: last_rev [symmetric] hd_rev)
  show ?thesis by (simp add: py_strip_def a b)
qed

definition duration_text :: "nat \<Rightarrow> nat \<Rightarrow> string" where
  "duration_text H M =
     (if 0 < H \<and> 0 < M then str_nat H @ CHR ''h'' # CHR '' '' # str_nat M @ [CHR ''m'']
      else if 0 < H then str_nat H @ [CHR ''h'']
      else str_nat M @ [CHR ''m''])"

lemma duration_text_lower: "py_lower (duration_text H M) = duration_text H M"
  unfolding py_lower_def
  by (rule map_idI) (auto simp: duration_text_def Let_def dest!: str_nat_digits digit_lower split: if_splits)

lemma hd_str_nat_digit: "is_digit (hd (str_nat n))"
  using str_nat_nonempty [of n] str_nat_digits [of "hd (str_nat n)" n] by simp

lemma duration_text_strip: "py_strip (duration_text H M) = duration_text H M"
proof (rule py_strip_id)
  show "duration_text H M \<noteq> []" by (simp add: duration_text_def)
  show "\<not> is_space (hd (duration_text H M))"
    using hd_str_nat_digit [of H] hd_str_nat_digit [of M] str_nat_nonempty [of H] str_nat_nonempty [of M]
    by (auto simp: duration_text_def hd_append dest: digit_not_space)
  show "\<not> is_space (last (duration_text H M))"
    by (simp add: duration_text_def is_space_def)
qed

lemma findall_duration_text:
  "findall (duration_text H M) =
     (if 0 < H \<and> 0 < M then [(str_nat H, ''h''), (str_nat M, ''m'')]
      else if 0 < H then [(str_nat H, ''h'')]
      else [(str_nat M, ''m'')])"
proof -
  have h: "findall (str_nat n @ CHR ''h'' # r) = (str_nat n, ''h'') # findall r" for n r
    using findall_unit [of "str_nat n" "CHR ''h''" r] str_nat_digits str_nat_nonempty by auto
  have m: "findall (str_nat n @ CHR ''m'' # r) = (str_nat n, ''m'') # findall r" for n r
    using findall_unit [of "str_nat n" "CHR ''m''" r] str_nat_digits str_nat_nonempty by auto
  show ?thesis
    by (simp add: duration_text_def h m findall_space findall_Nil)
qed

lemma remove_spaces_str_nat: "remove_spaces (str_nat n) = str_nat n"
  unfolding remove_spaces_def
  by (rule filter_True) (auto dest!: str_nat_digits digit_not_blank)

lemma remove_spaces_Cons:
  "remove_spaces (c # s) = (if c = CHR '' '' then remove_spaces s else c # remove_spaces s)"
  by (simp add: remove_spaces_def)

lemma remove_spaces_Nil: "remove_spaces [] = []"
  by (simp add: remove_spaces_def)

lemma remove_spaces_append: "remove_spaces (a @ b) = remove_spaces a @ remove_spaces b"
  by (simp add: remove_spaces_def)

lemma parse_duration_text:
  assumes "0 < H \<or> 0 < M"
  shows "parse_duration_string (Some (duration_text H M)) = timedelta_minutes (int H * 60 + int M)"
proof -
  let ?s = "duration_text H M"
  have ne: "py_strip ?s \<noteq> []"
    unfolding duration_text_strip by (simp add: duration_text_def)
  have p: "py_strip (py_lower ?s) = ?s"
    by (simp add: duration_text_lower duration_text_strip)
  have len: "length (remove_spaces (concat (map (\<lambda>(v, u). v @ u) (findall ?s))))
      = length (remove_spaces ?s)"
    unfolding findall_duration_text
    by (simp add: duration_text_def remove_spaces_append remove_spaces_str_nat
        remove_spaces_Cons remove_spaces_Nil)
  have tot: "sum_list (map minutes_of_match (findall ?s)) = of_int (int H * 60 + int M)"
    unfolding findall_duration_text
    using assms by (auto simp: float_of_decimal_str_nat)
  have nem: "findall ?s \<noteq> []"
    unfolding findall_duration_text by simp
  show ?thesis
    unfolding parse_duration_string_def
    by (simp only: option.case ne p if_False Let_def nem len tot py_round_of_int simp_thms) simp
qed


lemma py_int_whole_minutes: "py_int (total_seconds (Timedelta (d * 60000000))) = d * 60"
proof -
  have "total_seconds (Timedelta (d * 60000000)) = of_int (d * 60)"
    by (simp add: total_seconds_def)
  then show ?thesis
    by (simp only: py_int_def floor_of_int ceiling_of_int if_cancel)
qed

lemma format_whole_minutes:
  assumes "0 < d"
  shows "format_timedelta (Some (Timedelta (d * 60000000))) show_seconds
           = duration_text (nat (d div 60)) (nat (d mod 60))"
proof -
  have a: "\<bar>d * 60\<bar> = d * 60" using assms by simp
  have h: "d * 60 div 3600 = d div 60" by simp
  have r: "d * 60 mod 3600 = (d mod 60) * 60"
    using mult_mod_right [of 60 d 60] by (simp add: mult.commute)
  have m: "(d mod 60) * 60 div 60 = d mod 60" by simp
  have s: "(d mod 60) * 60 mod 60 = 0" by simp
  have pos: "0 < d div 60 \<or> 0 < d mod 60"
    using assms by presburger
  have nn: "0 \<le> d div 60" "0 \<le> d mod 60" using assms by simp_all
  show ?thesis
    unfolding format_timedelta_def option.case py_int_whole_minutes Let_def a h r m s
    using pos nn assms
    by (auto simp: duration_text_def str_int_def)
qed

lemma parse_format_whole_minutes:
  assumes "0 < d" and "timedelta_minutes d = Some td"
  shows "parse_duration_string (Some (format_timedelta (Some td) show_seconds)) = Some td"
proof -
  from assms(2) have td: "td = Timedelta (d * 60000000)"
    by (auto simp: timedelta_minutes_def split: if_splits)
  have pos: "0 < nat (d div 60) \<or> 0 < nat (d mod 60)"
  proof -
    from assms(1) have "0 < d div 60 \<or> 0 < d mod 60" by presburger
    then show ?thesis by simp
  qed
  have recompose: "int (nat (d div 60)) * 60 + int (nat (d mod 60)) = d"
    using assms(1) by simp
  show ?thesis
    unfolding td format_whole_minutes [OF assms(1)] parse_duration_text [OF pos] recompose
    using assms(2) td by simp
qed

text \<open>
  C6. For every valid wall-clock pair \<open>(h, m)\<close>, converting \<open>time(h, m)\<close> to total minutes
  and back returns \<open>time(h, m)\<close>; and for every positive whole-minute duration \<open>d\<close> that
  a \<open>timedelta\<close> can hold, parsing the formatted duration gives the duration back.
\<close>

theorem time_utils_roundtrip:
  "(0 \<le> h \<and> h \<le> 23 \<and> 0 \<le> m \<and> m \<le> 59 \<longrightarrow>
      total_minutes_to_time (MInt (time_to_total_minutes (mk_time h m))) = Some (mk_time h m)) \<and>
   (0 < d \<and> timedelta_minutes d = Some td \<longrightarrow>
      parse_duration_string (Some (format_timedelta (Some td) show_seconds)) = Some td)"
proof (intro conjI impI)
  assume hm: "0 \<le> h \<and> h \<le> 23 \<and> 0 \<le> m \<and> m \<le> 59"
  then have "h * 60 + m < 1440" "0 \<le> h * 60 + m" by simp_all
  moreover from hm have "(h * 60 + m) div 60 = h" "(h * 60 + m) mod 60 = m" by simp_all
  ultimately show "total_minutes_to_time (MInt (time_to_total_minutes (mk_time h m))) = Some (mk_time h m)"
    by (simp add: total_minutes_to_time_int time_to_total_minutes_def mk_time_def)
next
  assume "0 < d \<and> timedelta_minutes d = Some td"
  then show "parse_duration_string (Some (format_timedelta (Some td) show_seconds)) = Some td"
    using parse_format_whole_minutes [of d td show_seconds] by blast
qed

theorem time_utils_roundtrip_witness:
  "total_minutes_to_time (MInt (time_to_total_minutes (mk_time 14 55))) = Some (mk_time 14 55) \<and>
   timedelta_minutes 150 = Some (Timedelta 9000000000) \<and>
   format_timedelta (Some (Timedelta 9000000000)) False = ''2h 30m'' \<and>
   parse_duration_string (Some ''2h 30m'') = Some (Timedelta 9000000000)"
proof -
  have t: "timedelta_minutes 150 = Some (Timedelta 9000000000)"
    by (simp add: timedelta_minutes_def)
  have f: "format_timedelta (Some (Timedelta 9000000000)) False = ''2h 30m''"
    by code_simp
  from time_utils_roundtrip [of 14 55 150 "Timedelta 9000000000" False] t f
  show ?thesis by simp
qed

section \<open>Errors and datetimes\<close>

text \<open>
  The exceptions the embedded code raises, as values. A \<open>datetime\<close> is its instant in
  microseconds since the epoch (for a naive one, its wall-clock reading) and whether it
  carries a timezone; a timezone is a fixed UTC offset in seconds.
\<close>

datatype py_error = ValueError | TypeError | AttributeError | KeyError

record pydatetime =
  instant_us :: int
  tz_aware :: bool

definition local_time :: "int \<Rightarrow> pydatetime \<Rightarrow> pytime" where
  "local_time utc_offset_s dt =
     (let sod = (instant_us dt div 1000000 + utc_offset_s) mod 86400
      in \<lparr>hour = sod div 3600, minute = sod mod 3600 div 60, second = sod mod 60\<rparr>)"

section \<open>Sleep-quality scoring (scheduler-core/src/core/sleep.py)\<close>




text \<open>\<open>dict.get(key, default)\<close>.\<close>

definition dict_get :: "('k \<rightharpoonup> 'v) \<Rightarrow> 'k \<Rightarrow> 'v \<Rightarrow> 'v" where
  "dict_get m k d = (case m k of None \<Rightarrow> d | Some v \<Rightarrow> v)"

record sleep_metrics =
  ideal_duration :: timedelta
  ideal_bedtime :: pytime
  ideal_wake_time :: pytime
  actual_duration :: "timedelta option"
  actual_bedtime :: "pytime option"
  actual_wake_time :: "pytime option"
  sleep_quality_score :: "rat option"
  sleep_deficit :: "timedelta option"














section \<open>Chronotype profiles (scheduler-core/src/core/chronotype.py)\<close>

text \<open>Floats are idealised as reals here: the confidence needs a square root.\<close>

datatype chronotype = EARLY_BIRD | NIGHT_OWL | INTERMEDIATE | FLEXIBLE | UNKNOWN

record chronotype_profile =
  user_id :: string
  primary_chronotype :: chronotype
  chronotype_strength :: real
  consistency_score :: real
  natural_bedtime :: "pytime option"
  natural_wake_time :: "pytime option"
  preferred_productive_hours :: "(pytime \<times> pytime) list"
  preferred_exercise_time :: "pytime option"
  source_of_determination :: "string option"

text \<open>The dataclass constructor followed by \<open>__post_init__\<close>.\<close>

definition ChronotypeProfile ::
    "string \<Rightarrow> chronotype \<Rightarrow> real \<Rightarrow> real \<Rightarrow> pytime option \<Rightarrow> pytime option \<Rightarrow>
     (pytime \<times> pytime) list \<Rightarrow> pytime option \<Rightarrow> string option \<Rightarrow> chronotype_profile" where
  "ChronotypeProfile uid c strength consistency bed wake hours exercise src =
     \<lparr>user_id = uid, primary_chronotype = c,
      chronotype_strength = max 0 (min 1 strength),
      consistency_score = max 0 (min 1 consistency),
      natural_bedtime = bed, natural_wake_time = wake,
      preferred_productive_hours = hours, preferred_exercise_time = exercise,
      source_of_determination = src\<rparr>"

record chronotype_config =
  default_productive_windows :: "chronotype \<rightharpoonup> (pytime \<times> pytime) list"
  optimal_exercise_times :: "chronotype \<rightharpoonup> pytime"
  sleep_data_min_records :: int
  midsleep_threshold_early :: real
  midsleep_threshold_late :: real
  confidence_variance_scale :: real
  update_profile_confidence_threshold :: real

definition statistics_mean :: "real list \<Rightarrow> real" where
  "statistics_mean xs = sum_list xs / of_nat (length xs)"

definition statistics_stdev :: "real list \<Rightarrow> real" where
  "statistics_stdev xs =
     (let m = statistics_mean xs
      in sqrt (sum_list (map (\<lambda>x. (x - m)\<^sup>2) xs) / of_nat (length xs - 1)))"

text \<open>
  One sleep record of \<open>determine_chronotype_from_sleep_data\<close>: \<open>None\<close> when the record is
  skipped, else its mid-sleep hour in the user's timezone (a fixed UTC offset here).
\<close>

definition mid_sleep_hour :: "int \<Rightarrow> pydatetime \<times> pydatetime \<Rightarrow> real option" where
  "mid_sleep_hour tz_offset_s rec =
     (let sleep_start = fst rec; sleep_end = snd rec
      in if instant_us sleep_end \<le> instant_us sleep_start then None
         else if \<not> tz_aware sleep_start \<or> \<not> tz_aware sleep_end then None
         else
           let duration = instant_us sleep_end - instant_us sleep_start
           in if \<not> (3 * 3600000000 \<le> duration \<and> duration \<le> 14 * 3600000000) then None
              else
                let mid = \<lparr>instant_us = instant_us sleep_start + py_round (of_int duration / 2),
                           tz_aware = True\<rparr>;
                    t = local_time tz_offset_s mid
                in Some (of_int (hour t) + of_int (minute t) / 60 + of_int (second t) / 3600))"

definition determine_chronotype_from_sleep_data ::
    "chronotype_config \<Rightarrow> (pydatetime \<times> pydatetime) list \<Rightarrow> int \<Rightarrow> (chronotype \<times> real) option" where
  "determine_chronotype_from_sleep_data cfg sleep_records tz_offset_s =
     (if sleep_records = [] \<or> int (length sleep_records) < sleep_data_min_records cfg then None
      else
        let mid_sleep_times_hours = List.map_filter (mid_sleep_hour tz_offset_s) sleep_records;
            valid_records_count = int (length mid_sleep_times_hours)
        in if valid_records_count < sleep_data_min_records cfg then None
           else
             let avg_mid_sleep_hour = statistics_mean mid_sleep_times_hours;
                 stdev_mid_sleep_hour =
                   (if 1 < valid_records_count then statistics_stdev mid_sleep_times_hours else 0);
                 c = (if avg_mid_sleep_hour \<le> midsleep_threshold_early cfg then EARLY_BIRD
                      else if midsleep_threshold_late cfg \<le> avg_mid_sleep_hour then NIGHT_OWL
                      else INTERMEDIATE);
                 normalized_stdev = stdev_mid_sleep_hour / max (1 / 10) (confidence_variance_scale cfg);
                 confidence = max 0 (1 - normalized_stdev)
             in Some (c, confidence))"

definition update_chronotype_profile ::
    "chronotype_config \<Rightarrow> chronotype_profile \<Rightarrow> (pydatetime \<times> pydatetime) list \<Rightarrow> int
     \<Rightarrow> chronotype_profile" where
  "update_chronotype_profile cfg profile new_sleep_records tz_offset_s =
     (if new_sleep_records = [] then profile
      else
        case determine_chronotype_from_sleep_data cfg new_sleep_records tz_offset_s of
          None \<Rightarrow> profile
        | Some (new_chronotype, confidence) \<Rightarrow>
            if confidence < update_profile_confidence_threshold cfg then profile
            else
              let p1 = profile\<lparr>primary_chronotype := new_chronotype,
                               chronotype_strength := confidence,
                               consistency_score := consistency_score profile * (7 / 10) + confidence * (3 / 10)\<rparr>;
                  p2 = p1\<lparr>consistency_score := max 0 (min 1 (consistency_score p1)),
                          source_of_determination := Some ''sleep_data_update''\<rparr>
              in case (default_productive_windows cfg UNKNOWN, optimal_exercise_times cfg UNKNOWN) of
                   (Some w_unknown, Some e_unknown) \<Rightarrow>
                     p2\<lparr>preferred_productive_hours :=
                           (case default_productive_windows cfg new_chronotype of
                              None \<Rightarrow> w_unknown | Some w \<Rightarrow> w),
                         preferred_exercise_time :=
                           Some (case optimal_exercise_times cfg new_chronotype of
                                   None \<Rightarrow> e_unknown | Some t \<Rightarrow> t)\<rparr>
                 | (Some w_unknown, None) \<Rightarrow>
                     p2\<lparr>preferred_productive_hours :=
                           (case default_productive_windows cfg new_chronotype of
                              None \<Rightarrow> w_unknown | Some w \<Rightarrow> w)\<rparr>
                 | (None, _) \<Rightarrow> p2)"

definition profile_in_bounds :: "chronotype_profile \<Rightarrow> bool" where
  "profile_in_bounds p =
     (0 \<le> chronotype_strength p \<and> chronotype_strength p \<le> 1 \<and>
      0 \<le> consistency_score p \<and> consistency_score p \<le> 1)"

section \<open>Properties of the sleep-quality score\<close>





section \<open>Properties of chronotype profiles\<close>

lemma ChronotypeProfile_in_bounds:
  "profile_in_bounds (ChronotypeProfile uid c strength consistency bed wake hours exercise src)"
  by (simp add: profile_in_bounds_def ChronotypeProfile_def)

lemma statistics_stdev_nonneg: "0 \<le> statistics_stdev xs"
  unfolding statistics_stdev_def Let_def
  by (intro real_sqrt_ge_zero divide_nonneg_nonneg sum_list_nonneg) auto

lemma confidence_in_bounds:
  assumes "determine_chronotype_from_sleep_data cfg recs tz = Some (c, conf)"
  shows "0 \<le> conf \<and> conf \<le> 1"
proof -
  let ?xs = "List.map_filter (mid_sleep_hour tz) recs"
  let ?sd = "if 1 < int (length ?xs) then statistics_stdev ?xs else 0"
  from assms have conf: "conf = max 0 (1 - ?sd / max (1 / 10) (confidence_variance_scale cfg))"
    by (auto simp: determine_chronotype_from_sleep_data_def Let_def split: if_splits)
  have "0 \<le> ?sd" by (simp add: statistics_stdev_nonneg)
  moreover have "0 < max (1 / 10) (confidence_variance_scale cfg)" by simp
  ultimately have "0 \<le> ?sd / max (1 / 10) (confidence_variance_scale cfg)"
    by (intro divide_nonneg_pos)
  then show ?thesis unfolding conf by simp
qed

lemma update_in_bounds:
  assumes "profile_in_bounds p"
  shows "profile_in_bounds (update_chronotype_profile cfg p recs tz)"
proof (cases "determine_chronotype_from_sleep_data cfg recs tz")
  case None
  with assms show ?thesis by (simp add: update_chronotype_profile_def)
next
  case (Some a)
  obtain c conf where a: "a = (c, conf)" by (cases a)
  from Some a have "0 \<le> conf \<and> conf \<le> 1" using confidence_in_bounds by blast
  with assms Some a show ?thesis
    by (auto simp: update_chronotype_profile_def profile_in_bounds_def Let_def
        split: option.splits)
qed

text \<open>
  C10. In every profile built by the constructor, and after every sequence of
  \<open>update_chronotype_profile\<close> calls on it, \<open>chronotype_strength\<close> and
  \<open>consistency_score\<close> lie in \<open>[0, 1]\<close>.
\<close>

theorem profile_bounds_invariant:
  "profile_in_bounds
     (foldl (\<lambda>p (recs, tz). update_chronotype_profile cfg p recs tz)
        (ChronotypeProfile uid c strength consistency bed wake hours exercise src) updates)"
proof -
  have "profile_in_bounds p \<Longrightarrow>
        profile_in_bounds (foldl (\<lambda>p (recs, tz). update_chronotype_profile cfg p recs tz) p updates)" for p
    by (induction updates arbitrary: p) (auto simp: update_in_bounds)
  then show ?thesis by (simp add: ChronotypeProfile_in_bounds)
qed

section \<open>The constraint solver (scheduler-core/src/core/constraint_solver.py)\<close>

record fixed_event_interval =
  event_id :: "string option"
  start_minutes :: int
  end_minutes :: int

definition FixedEventInterval :: "string option \<Rightarrow> int \<Rightarrow> int \<Rightarrow> py_error + fixed_event_interval" where
  "FixedEventInterval i s e =
     (if \<not> (0 \<le> s \<and> s \<le> 1439 \<and> 0 \<le> e \<and> e \<le> 1440) then Inl ValueError
      else if e \<le> s then Inl ValueError
      else if e - s \<le> 0 then Inl ValueError
      else Inr \<lparr>event_id = i, start_minutes = s, end_minutes = e\<rparr>)"

record solver_task =
  task_id :: string
  duration_minutes :: int
  priority :: int
  energy_level :: int
  earliest_start_minutes :: "int option"
  latest_end_minutes :: "int option"
  dependencies :: "string list"

definition SolverTask ::
    "string \<Rightarrow> int \<Rightarrow> int \<Rightarrow> int \<Rightarrow> int option \<Rightarrow> int option \<Rightarrow> string list \<Rightarrow> py_error + solver_task" where
  "SolverTask i dur prio energy es le deps =
     (if dur \<le> 0 then Inl ValueError
      else if (case es of None \<Rightarrow> False | Some s \<Rightarrow> s < 0) then Inl ValueError
      else if (case le of None \<Rightarrow> False | Some e \<Rightarrow> 1440 < e) then Inl ValueError
      else if (case (es, le) of (Some s, Some e) \<Rightarrow> e < s + dur | _ \<Rightarrow> False) then Inl ValueError
      else Inr \<lparr>task_id = i, duration_minutes = dur, priority = prio, energy_level = energy,
                earliest_start_minutes = es, latest_end_minutes = le, dependencies = deps\<rparr>)"

record solver_input =
  tasks :: "solver_task list"
  fixed_events :: "fixed_event_interval list"
  day_start_minutes :: int
  day_end_minutes :: int
  user_energy_pattern :: "(int \<times> rat) list"

definition SolverInput ::
    "solver_task list \<Rightarrow> fixed_event_interval list \<Rightarrow> int \<Rightarrow> int \<Rightarrow> (int \<times> rat) list
     \<Rightarrow> py_error + solver_input" where
  "SolverInput ts fes ds de pattern =
     (if \<not> (0 \<le> ds \<and> ds < de \<and> de \<le> 1440) then Inl ValueError
      else if \<exists>h \<in> set (map fst pattern). \<not> (0 \<le> h \<and> h \<le> 23) then Inl ValueError
      else Inr \<lparr>tasks = ts, fixed_events = fes, day_start_minutes = ds, day_end_minutes = de,
                user_energy_pattern = pattern\<rparr>)"

record scheduled_task_info =
  info_task_id :: string
  start_time :: pytime
  end_time :: pytime

record objective_weights =
  w_priority :: int
  w_energy_match :: int
  w_start_time_penalty :: int

definition default_objective_weights :: objective_weights where
  "default_objective_weights = \<lparr>w_priority = 10, w_energy_match = 5, w_start_time_penalty = 1\<rparr>"

text \<open>Python's \<open>x or d\<close> on an optional int: \<open>None\<close> and \<open>0\<close> are both falsy.\<close>

definition py_or :: "int option \<Rightarrow> int \<Rightarrow> int" where
  "py_or x d = (case x of None \<Rightarrow> d | Some v \<Rightarrow> if v = 0 then d else v)"

text \<open>The bounds of a task's start variable; \<open>None\<close> when the task is skipped as impossible.\<close>

definition start_domain :: "solver_input \<Rightarrow> solver_task \<Rightarrow> (int \<times> int) option" where
  "start_domain si task =
     (let horizon = day_end_minutes si;
          earliest_possible_start = max (day_start_minutes si) (py_or (earliest_start_minutes task) 0);
          latest_possible_end = min horizon (py_or (latest_end_minutes task) horizon);
          latest_possible_start = latest_possible_end - duration_minutes task
      in if latest_possible_start < earliest_possible_start then None
         else Some (earliest_possible_start, latest_possible_start))"

text \<open>A Python dict as an association list in insertion order: assignment to a key.\<close>

fun dict_set :: "'k \<Rightarrow> 'v \<Rightarrow> ('k \<times> 'v) list \<Rightarrow> ('k \<times> 'v) list" where
  "dict_set k v [] = [(k, v)]"
| "dict_set k v ((k', v') # kvs) = (if k = k' then (k, v) # kvs else (k', v') # dict_set k v kvs)"

datatype log_entry = TaskImpossible string | DependencyNotFound string string

text \<open>
  Step 1 of \<open>solve\<close>: the dict of task variables (task id to the task and the bounds of
  its start) and the errors logged for the tasks skipped.
\<close>

fun create_task_vars ::
    "solver_input \<Rightarrow> solver_task list \<Rightarrow> (string \<times> solver_task \<times> int \<times> int) list \<times> log_entry list
     \<Rightarrow> (string \<times> solver_task \<times> int \<times> int) list \<times> log_entry list" where
  "create_task_vars si [] acc = acc"
| "create_task_vars si (task # rest) (vars, logs) =
     (case start_domain si task of
        None \<Rightarrow> create_task_vars si rest (vars, logs @ [TaskImpossible (task_id task)])
      | Some (lo, hi) \<Rightarrow> create_task_vars si rest (dict_set (task_id task) (task, lo, hi) vars, logs))"

definition hourly_energy_score :: "(int \<times> rat) list \<Rightarrow> int \<Rightarrow> int \<Rightarrow> int" where
  "hourly_energy_score pattern task_energy_level hr =
     (let task_energy_norm = of_int task_energy_level / 3;
          user_energy = dict_get (map_of pattern) hr (1 / 2);
          match = 1 - \<bar>user_energy - task_energy_norm\<bar>
      in py_int (match * 100))"

text \<open>
  The value of one task's objective terms when its start variable takes the value
  \<open>start\<close>: the priority constant, the start penalty and, through the division and
  element constraints, the energy score of the start hour.
\<close>

definition task_objective :: "objective_weights \<Rightarrow> (int \<times> rat) list \<Rightarrow> solver_task \<Rightarrow> int \<Rightarrow> int" where
  "task_objective w pattern task start =
     priority task * w_priority w
     + start * (- w_start_time_penalty w)
     + (if 0 < w_energy_match w \<and> energy_level task \<in> {1, 2, 3}
        then hourly_energy_score pattern (energy_level task) (start div 60) * w_energy_match w
        else 0)"

text \<open>
  The constraint model handed to CP-SAT, by its meaning on an assignment of start values
  to task ids: the bounds, the two no-overlap constraints, the dependencies, and the
  ranges of the start-hour and energy-score variables.
\<close>

definition overlapping :: "int \<times> int \<Rightarrow> int \<times> int \<Rightarrow> bool" where
  "overlapping a b = (max (fst a) (fst b) < min (snd a) (snd b))"

fun no_overlap :: "(int \<times> int) list \<Rightarrow> bool" where
  "no_overlap [] = True"
| "no_overlap (x # xs) = ((\<forall>y \<in> set xs. \<not> overlapping x y) \<and> no_overlap xs)"

definition clipped_fixed_events :: "solver_input \<Rightarrow> (int \<times> int) list" where
  "clipped_fixed_events si =
     filter (\<lambda>(s, e). 0 < e - s)
       (map (\<lambda>ev. (max (day_start_minutes si) (start_minutes ev), min (day_end_minutes si) (end_minutes ev)))
          (fixed_events si))"

record cp_model =
  cp_vars :: "(string \<times> solver_task \<times> int \<times> int) list"
  cp_fixed :: "(int \<times> int) list"
  cp_weights :: objective_weights
  cp_pattern :: "(int \<times> rat) list"

definition cp_satisfied :: "cp_model \<Rightarrow> (string \<Rightarrow> int) \<Rightarrow> bool" where
  "cp_satisfied m val =
     (let ivs = map (\<lambda>(i, t, lo, hi). (val i, val i + duration_minutes t)) (cp_vars m)
      in (\<forall>(i, t, lo, hi) \<in> set (cp_vars m). lo \<le> val i \<and> val i \<le> hi) \<and>
         no_overlap ivs \<and>
         (cp_fixed m \<noteq> [] \<longrightarrow> no_overlap (ivs @ cp_fixed m)) \<and>
         (\<forall>(i, t, lo, hi) \<in> set (cp_vars m). \<forall>d \<in> set (dependencies t).
            (case map_of (cp_vars m) d of
               None \<Rightarrow> True
             | Some (dt, _, _) \<Rightarrow> val d + duration_minutes dt \<le> val i)) \<and>
         (\<forall>(i, t, lo, hi) \<in> set (cp_vars m).
            0 < w_energy_match (cp_weights m) \<and> energy_level t \<in> {1, 2, 3} \<longrightarrow>
              0 \<le> val i div 60 \<and> val i div 60 \<le> 23 \<and>
              0 \<le> hourly_energy_score (cp_pattern m) (energy_level t) (val i div 60) \<and>
              hourly_energy_score (cp_pattern m) (energy_level t) (val i div 60) \<le> 100))"

definition cp_objective :: "cp_model \<Rightarrow> (string \<Rightarrow> int) \<Rightarrow> int" where
  "cp_objective m val =
     sum_list (map (\<lambda>(i, t, lo, hi). task_objective (cp_weights m) (cp_pattern m) t (val i)) (cp_vars m))"

datatype cp_status = OPTIMAL | FEASIBLE | INFEASIBLE | MODEL_INVALID | UNKNOWN_STATUS

type_synonym cp_engine = "cp_model \<Rightarrow> cp_status \<times> (string \<Rightarrow> int)"

definition time_key :: "pytime \<Rightarrow> int" where
  "time_key t = (hour t * 60 + minute t) * 60 + second t"

text \<open>Steps 2 to 5 of \<open>solve\<close>, from the dict of task variables on.\<close>

definition solve_model ::
    "cp_engine \<Rightarrow> objective_weights \<Rightarrow> solver_input \<Rightarrow> (string \<times> solver_task \<times> int \<times> int) list
     \<Rightarrow> scheduled_task_info list option" where
  "solve_model engine w si vars =
     (if vars = [] then Some []
      else
        let model = \<lparr>cp_vars = vars, cp_fixed = clipped_fixed_events si,
                     cp_weights = w, cp_pattern = user_energy_pattern si\<rparr>;
            (status, val) = engine model
        in if status = OPTIMAL \<or> status = FEASIBLE
           then Some (sort_key (\<lambda>x. time_key (start_time x))
                  (List.map_filter
                     (\<lambda>(i, t, lo, hi).
                        case (total_minutes_to_time (MInt (val i)),
                              total_minutes_to_time (MInt (val i + duration_minutes t))) of
                          (Some st, Some et) \<Rightarrow>
                            Some \<lparr>info_task_id = i, start_time = st, end_time = et\<rparr>
                        | _ \<Rightarrow> None)
                     vars))
           else None)"

definition solve ::
    "cp_engine \<Rightarrow> objective_weights \<Rightarrow> solver_input \<Rightarrow> scheduled_task_info list option" where
  "solve engine w si =
     (if tasks si = [] then Some []
      else
        let (vars, logs) = create_task_vars si (tasks si) ([], [])
        in solve_model engine w si vars)"



section \<open>Properties of the solver's energy table\<close>






section \<open>The orchestrator (src/core/scheduler.py)\<close>

text \<open>
  \<open>time.fromisoformat\<close> on the formats \<open>HH:MM\<close> and \<open>HH:MM:SS\<close>; any other text is a
  \<open>ValueError\<close> here (fractional seconds and UTC offsets are not modelled).
\<close>

definition two_digits :: "string \<Rightarrow> int option" where
  "two_digits s =
     (case s of
        [a, b] \<Rightarrow> if is_digit a \<and> is_digit b then Some (int (dec_value s)) else None
      | _ \<Rightarrow> None)"

definition time_fromisoformat :: "string \<Rightarrow> py_error + pytime" where
  "time_fromisoformat s =
     (let hh = two_digits (take 2 s); mm = two_digits (take 2 (drop 3 s));
          ss = (if length s = 5 then Some 0 else two_digits (take 2 (drop 6 s)))
      in if (length s = 5 \<or> length s = 8) \<and> s ! 2 = CHR '':''
            \<and> (length s = 8 \<longrightarrow> s ! 5 = CHR '':'')
         then (case (hh, mm, ss) of
                 (Some h, Some m, Some sec) \<Rightarrow>
                   if h \<le> 23 \<and> m \<le> 59 \<and> sec \<le> 59
                   then Inr \<lparr>hour = h, minute = m, second = sec\<rparr> else Inl ValueError
               | _ \<Rightarrow> Inl ValueError)
         else Inl ValueError)"

text \<open>\<open>strftime("%H:%M")\<close>.\<close>

definition pad2 :: "int \<Rightarrow> string" where
  "pad2 n = (if n < 10 then CHR ''0'' # str_int n else str_int n)"

definition strftime_HM :: "pytime \<Rightarrow> string" where
  "strftime_HM t = pad2 (hour t) @ '':'' @ pad2 (minute t)"

text \<open>\<open>total_minutes_to_time(n).strftime("%H:%M")\<close>; a \<open>None\<close> has no \<open>strftime\<close>.\<close>

definition minutes_HM :: "int \<Rightarrow> py_error + string" where
  "minutes_HM n =
     (case total_minutes_to_time (MInt n) of
        None \<Rightarrow> Inl AttributeError
      | Some t \<Rightarrow> Inr (strftime_HM t))"

text \<open>ASCII models of \<open>str.title\<close>, \<open>str.replace("_", " ")\<close>, \<open>in\<close>, \<open>startswith\<close>, \<open>split(",")\<close>.\<close>

definition is_lower :: "char \<Rightarrow> bool" where
  "is_lower c = (97 \<le> (of_char c :: nat) \<and> (of_char c :: nat) \<le> 122)"

definition is_upper :: "char \<Rightarrow> bool" where
  "is_upper c = (65 \<le> (of_char c :: nat) \<and> (of_char c :: nat) \<le> 90)"

definition to_upper :: "char \<Rightarrow> char" where
  "to_upper c = (if is_lower c then char_of ((of_char c :: nat) - 32) else c)"

definition to_lower :: "char \<Rightarrow> char" where
  "to_lower c = (if is_upper c then char_of ((of_char c :: nat) + 32) else c)"

fun title_from :: "bool \<Rightarrow> string \<Rightarrow> string" where
  "title_from previous_is_cased [] = []"
| "title_from previous_is_cased (c # s) =
     (if is_lower c then (if previous_is_cased then c else to_upper c) # title_from True s
      else if is_upper c then (if previous_is_cased then to_lower c else c) # title_from True s
      else c # title_from False s)"

definition py_title :: "string \<Rightarrow> string" where
  "py_title s = title_from False s"

definition replace_underscores :: "string \<Rightarrow> string" where
  "replace_underscores s = map (\<lambda>c. if c = CHR ''_'' then CHR '' '' else c) s"

definition startswith :: "string \<Rightarrow> string \<Rightarrow> bool" where
  "startswith s p = (take (length p) s = p)"

fun contains_str :: "string \<Rightarrow> string \<Rightarrow> bool" where
  "contains_str [] sub = (sub = [])"
| "contains_str (c # s) sub = (startswith (c # s) sub \<or> contains_str s sub)"

fun split_comma :: "string \<Rightarrow> string list" where
  "split_comma [] = [[]]"
| "split_comma (c # s) =
     (case split_comma s of
        [] \<Rightarrow> [[c]]
      | w # ws \<Rightarrow> if c = CHR '','' then [] # w # ws else (c # w) # ws)"

datatype task_duration = DurTimedelta timedelta | DurStr string | DurInt int | DurFloat rat

datatype earliest_start_value = EsNone | EsTime pytime | EsDatetime pydatetime

record task =
  tk_id :: string
  tk_title :: string
  tk_duration :: task_duration
  tk_completed :: bool
  tk_priority :: int
  tk_energy_level :: int
  tk_earliest_start :: earliest_start_value
  tk_deadline :: "pydatetime option"
  tk_dependencies :: "string list"

record fixed_event_input =
  fe_id :: "string option"
  fe_start_time :: "string option"
  fe_end_time :: "string option"

record meal_prefs =
  breakfast_time :: "string option"
  breakfast_duration_minutes :: "int option"
  lunch_time :: "string option"
  lunch_duration_minutes :: "int option"
  dinner_time :: "string option"
  dinner_duration_minutes :: "int option"

record routine_prefs =
  morning_duration_minutes :: "int option"
  evening_duration_minutes :: "int option"

datatype preferred_time = PtStr string | PtList "string list"

record activity_goal =
  ag_name :: "string option"
  ag_duration_minutes :: "int option"
  ag_frequency :: "string option"
  ag_preferred_time :: "preferred_time option"

record preferences =
  preferred_wake_time :: "string option"
  sleep_need_scale :: "rat option"
  chronotype_scale :: "rat option"
  meals :: meal_prefs
  routines :: routine_prefs
  activity_goals :: "activity_goal list"

text \<open>
  \<open>ScheduleInputData\<close>. The target date enters the code through its weekday
  (\<open>strftime("%a").lower()\<close>) and the instant of its midnight in UTC.
\<close>

record schedule_input_data =
  in_user_id :: string
  target_weekday :: string
  target_day_start_us :: int
  in_tasks :: "task list"
  fixed_events_input :: "fixed_event_input list"
  in_preferences :: preferences
  profile_age :: "int option"
  profile_meq_score :: "int option"

record schedule_item =
  item_type :: string
  item_name :: string
  item_start_time :: string
  item_end_time :: string
  item_duration_minutes :: int
  item_event_id :: "string option"
  item_task_id :: "string option"

record metric_values =
  total_task_minutes :: int
  total_break_minutes :: int
  total_fixed_minutes :: int
  total_sleep_minutes :: int
  total_meal_minutes :: int
  total_routine_minutes :: int
  total_activity_minutes :: int
  total_productive_minutes :: int
  total_personal_minutes :: int
  total_rest_minutes :: int
  unscheduled_tasks :: int
  task_completion_pct :: rat
  work_life_balance :: rat

text \<open>
  The \<open>metrics\<close> dict: \<open>{"status": "failed"}\<close>, \<open>{"status": "error"}\<close>, the computed metrics, or
  whatever the LLM engine returned.
\<close>

datatype schedule_metrics = StatusFailed | StatusError | Computed metric_values | FromLLM "(string \<times> string) list"

text \<open>The warning and error texts of \<open>generate_schedule\<close>, by kind.\<close>

datatype message =
    SolverInputError
  | NoCoreSchedule
  | SolverFailed
  | InternalError py_error

text \<open>\<open>GeneratedSchedule\<close> without its random id and its timestamp.\<close>

record generated_schedule =
  gs_user_id :: string
  gs_scheduled_items :: "schedule_item list"
  gs_metrics :: schedule_metrics
  gs_explanation_error :: "message option"
  gs_warnings :: "message list"

text \<open>The components injected into \<open>Scheduler.__init__\<close>, each call an error or a value.\<close>

record components =
  determine_chronotype_from_meq :: "int \<Rightarrow> py_error + chronotype"
  create_chronotype_profile ::
    "string \<Rightarrow> chronotype \<Rightarrow> string \<Rightarrow> int option option \<Rightarrow> py_error + chronotype_profile"
  calculate_sleep_window ::
    "int option \<Rightarrow> chronotype \<Rightarrow> rat option \<Rightarrow> rat option \<Rightarrow> pytime option \<Rightarrow> py_error + sleep_metrics"
  get_energy_pattern :: "chronotype_profile \<Rightarrow> py_error + (int \<times> rat) list"
  solver_solve :: "solver_input \<Rightarrow> py_error + scheduled_task_info list option"
  llm_refine ::
    "(scheduled_task_info list \<Rightarrow> schedule_input_data \<Rightarrow> chronotype_profile \<Rightarrow> sleep_metrics
      \<Rightarrow> py_error + schedule_item list \<times> schedule_metrics) option"

definition prepare_profile :: "components \<Rightarrow> schedule_input_data \<Rightarrow> py_error + chronotype_profile" where
  "prepare_profile comps input_data =
     (let fallback = create_chronotype_profile comps (in_user_id input_data) UNKNOWN ''default''
                       (Some (profile_age input_data))
      in case profile_meq_score input_data of
           None \<Rightarrow> fallback
         | Some meq \<Rightarrow>
             (case determine_chronotype_from_meq comps meq of
                Inl err \<Rightarrow> fallback
              | Inr chrono \<Rightarrow>
                  (case create_chronotype_profile comps (in_user_id input_data) chrono ''meq'' None of
                     Inl err \<Rightarrow> fallback
                   | Inr profile \<Rightarrow> Inr profile)))"

definition fallback_sleep_metrics :: sleep_metrics where
  "fallback_sleep_metrics =
     \<lparr>ideal_duration = Timedelta (8 * 3600 * 1000000),
      ideal_bedtime = mk_time 23 0, ideal_wake_time = mk_time 7 0,
      actual_duration = None, actual_bedtime = None, actual_wake_time = None,
      sleep_quality_score = None, sleep_deficit = None\<rparr>"

definition calculate_sleep :: "components \<Rightarrow> chronotype_profile \<Rightarrow> schedule_input_data \<Rightarrow> sleep_metrics" where
  "calculate_sleep comps profile input_data =
     (let prefs = in_preferences input_data;
          target_wake =
            (case preferred_wake_time prefs of
               None \<Rightarrow> None
             | Some wake_str \<Rightarrow>
                 if wake_str = [] then None
                 else (case time_fromisoformat wake_str of Inl err \<Rightarrow> None | Inr t \<Rightarrow> Some t))
      in case calculate_sleep_window comps (profile_age input_data) (primary_chronotype profile)
                (sleep_need_scale prefs) (chronotype_scale prefs) target_wake of
           Inl err \<Rightarrow> fallback_sleep_metrics
         | Inr m \<Rightarrow> m)"

definition task_duration_minutes :: "task_duration \<Rightarrow> int option" where
  "task_duration_minutes d =
     (case d of
        DurTimedelta td \<Rightarrow> Some (microseconds td div 60000000)
      | DurStr s \<Rightarrow>
          (case parse_duration_string (Some s) of
             None \<Rightarrow> None
           | Some pd \<Rightarrow> if microseconds pd = 0 then None else Some (microseconds pd div 60000000))
      | DurInt i \<Rightarrow> Some i
      | DurFloat x \<Rightarrow> Some (py_int x))"

text \<open>One round of the task loop: \<open>Inr None\<close> is \<open>continue\<close>, \<open>Inl\<close> an exception.\<close>

definition solver_task_of :: "schedule_input_data \<Rightarrow> task \<Rightarrow> py_error + solver_task option" where
  "solver_task_of input_data t =
     (if tk_completed t then Inr None
      else
        case task_duration_minutes (tk_duration t) of
          None \<Rightarrow> Inr None
        | Some dur_min \<Rightarrow>
            if dur_min = 0 \<or> dur_min \<le> 0 then Inr None
            else
              let es = (case tk_earliest_start t of
                          EsTime tm \<Rightarrow> Some (time_to_total_minutes tm)
                        | _ \<Rightarrow> None);
                  le = (case tk_deadline t of
                          None \<Rightarrow> None
                        | Some dt \<Rightarrow>
                            Some ((instant_us dt - target_day_start_us input_data) div 60000000))
              in case SolverTask (tk_id t) dur_min (tk_priority t) (tk_energy_level t) es le
                        (tk_dependencies t) of
                   Inl err \<Rightarrow> Inl err
                 | Inr st \<Rightarrow> Inr (Some st))"

text \<open>A loop that appends what each round yields and stops at the first exception.\<close>

fun collect :: "('a \<Rightarrow> py_error + 'b option) \<Rightarrow> 'a list \<Rightarrow> py_error + 'b list" where
  "collect f [] = Inr []"
| "collect f (x # xs) =
     (case f x of
        Inl err \<Rightarrow> Inl err
      | Inr r \<Rightarrow>
          (case collect f xs of
             Inl err \<Rightarrow> Inl err
           | Inr rs \<Rightarrow> Inr ((case r of None \<Rightarrow> [] | Some y \<Rightarrow> [y]) @ rs)))"

definition fixed_event_of_input :: "fixed_event_input \<Rightarrow> py_error + fixed_event_interval" where
  "fixed_event_of_input e =
     (case fe_start_time e of
        None \<Rightarrow> Inl TypeError
      | Some start_str \<Rightarrow>
          (case time_fromisoformat start_str of
             Inl err \<Rightarrow> Inl err
           | Inr st \<Rightarrow>
               (case fe_end_time e of
                  None \<Rightarrow> Inl TypeError
                | Some end_str \<Rightarrow>
                    (case time_fromisoformat end_str of
                       Inl err \<Rightarrow> Inl err
                     | Inr et \<Rightarrow>
                         let sm = time_to_total_minutes st;
                             em0 = (if et = mk_time 0 0 then 1440 else time_to_total_minutes et);
                             em = (if em0 \<le> sm then sm + 1 else em0)
                         in FixedEventInterval (fe_id e) sm em))))"

definition sleep_events :: "sleep_metrics \<Rightarrow> py_error + fixed_event_interval list" where
  "sleep_events sm =
     (let sb = time_to_total_minutes (ideal_bedtime sm);
          sw = time_to_total_minutes (ideal_wake_time sm)
      in if sb < sw
         then (case FixedEventInterval (Some ''sleep'') sb sw of
                 Inl err \<Rightarrow> Inl err | Inr ev \<Rightarrow> Inr [ev])
         else (case FixedEventInterval (Some ''sleep_prev'') sb 1440 of
                 Inl err \<Rightarrow> Inl err
               | Inr prev \<Rightarrow>
                   (case FixedEventInterval (Some ''sleep_next'') 0 sw of
                      Inl err \<Rightarrow> Inl err | Inr nxt \<Rightarrow> Inr [prev, nxt])))"

definition prepare_solver_input_raising ::
    "components \<Rightarrow> schedule_input_data \<Rightarrow> chronotype_profile \<Rightarrow> sleep_metrics \<Rightarrow> py_error + solver_input" where
  "prepare_solver_input_raising comps input_data profile sleep =
     (case collect (solver_task_of input_data) (in_tasks input_data) of
        Inl err \<Rightarrow> Inl err
      | Inr solver_tasks \<Rightarrow>
          (case collect (\<lambda>e. map_sum id Some (fixed_event_of_input e)) (fixed_events_input input_data) of
             Inl err \<Rightarrow> Inl err
           | Inr solver_events \<Rightarrow>
               (case sleep_events sleep of
                  Inl err \<Rightarrow> Inl err
                | Inr sleep_evs \<Rightarrow>
                    (case get_energy_pattern comps profile of
                       Inl err \<Rightarrow> Inl err
                     | Inr energy_pattern \<Rightarrow>
                         SolverInput solver_tasks (solver_events @ sleep_evs) 0 1440 energy_pattern))))"

text \<open>\<open>_prepare_solver_input\<close>: the body above inside \<open>try ... except Exception: return None\<close>.\<close>

definition prepare_solver_input ::
    "components \<Rightarrow> schedule_input_data \<Rightarrow> chronotype_profile \<Rightarrow> sleep_metrics \<Rightarrow> solver_input option" where
  "prepare_solver_input comps input_data profile sleep =
     (case prepare_solver_input_raising comps input_data profile sleep of
        Inl err \<Rightarrow> None
      | Inr si \<Rightarrow> Some si)"

type_synonym block = "int \<times> int \<times> schedule_item"

definition end_of_day_HM :: "int \<Rightarrow> py_error + string" where
  "end_of_day_HM n = (if 1440 \<le> n then Inr ''24:00'' else minutes_HM n)"

definition fixed_event_block :: "fixed_event_interval \<Rightarrow> py_error + block" where
  "fixed_event_block fe =
     (case event_id fe of
        None \<Rightarrow> Inl AttributeError
      | Some i \<Rightarrow>
          (case minutes_HM (start_minutes fe) of
             Inl err \<Rightarrow> Inl err
           | Inr st \<Rightarrow>
               (case end_of_day_HM (end_minutes fe) of
                  Inl err \<Rightarrow> Inl err
                | Inr et \<Rightarrow>
                    Inr (start_minutes fe, end_minutes fe,
                         \<lparr>item_type = ''fixed_event'', item_name = py_title (replace_underscores i),
                          item_start_time = st, item_end_time = et,
                          item_duration_minutes = end_minutes fe - start_minutes fe,
                          item_event_id = Some i, item_task_id = None\<rparr>))))"

definition task_title_for :: "task list \<Rightarrow> string \<Rightarrow> string" where
  "task_title_for ts i =
     (case filter (\<lambda>t. tk_id t = i) ts of [] \<Rightarrow> ''Task'' | t # _ \<Rightarrow> tk_title t)"

definition task_block :: "task list \<Rightarrow> scheduled_task_info \<Rightarrow> block" where
  "task_block ts info =
     (time_to_total_minutes (start_time info), time_to_total_minutes (end_time info),
      \<lparr>item_type = ''task'', item_name = task_title_for ts (info_task_id info),
       item_start_time = strftime_HM (start_time info), item_end_time = strftime_HM (end_time info),
       item_duration_minutes =
         time_to_total_minutes (end_time info) - time_to_total_minutes (start_time info),
       item_event_id = None, item_task_id = Some (info_task_id info)\<rparr>)"

text \<open>A block of a filler kind (routine, meal, activity).\<close>

definition mk_block :: "string \<Rightarrow> string \<Rightarrow> int \<Rightarrow> int \<Rightarrow> int \<Rightarrow> py_error + block" where
  "mk_block kind nm start end dur =
     (case minutes_HM start of
        Inl err \<Rightarrow> Inl err
      | Inr st \<Rightarrow>
          (case minutes_HM end of
             Inl err \<Rightarrow> Inl err
           | Inr et \<Rightarrow>
               Inr (start, end,
                    \<lparr>item_type = kind, item_name = nm, item_start_time = st, item_end_time = et,
                     item_duration_minutes = dur, item_event_id = None, item_task_id = None\<rparr>)))"

definition filler_block :: "string \<Rightarrow> string \<Rightarrow> int \<Rightarrow> int \<Rightarrow> py_error + block" where
  "filler_block kind nm start dur = mk_block kind nm start (start + dur) dur"

definition meal_minutes :: "string option \<Rightarrow> string \<Rightarrow> int \<Rightarrow> int" where
  "meal_minutes pref default_text default_minutes =
     (case time_fromisoformat (case pref of None \<Rightarrow> default_text | Some s \<Rightarrow> s) of
        Inl err \<Rightarrow> default_minutes
      | Inr t \<Rightarrow> time_to_total_minutes t)"

definition opt_default :: "'a option \<Rightarrow> 'a \<Rightarrow> 'a" where
  "opt_default x d = (case x of None \<Rightarrow> d | Some v \<Rightarrow> v)"

text \<open>The three flags set by the scan of the fixed events' names, an \<open>if/elif\<close> chain.\<close>

fun meal_flags :: "block list \<Rightarrow> bool \<times> bool \<times> bool \<Rightarrow> bool \<times> bool \<times> bool" where
  "meal_flags [] flags = flags"
| "meal_flags ((s, e, meta) # rest) (has_breakfast, has_lunch, has_dinner) =
     (if item_type meta = ''fixed_event''
      then
        let event_name = py_lower (item_name meta)
        in if contains_str event_name ''breakfast''
              \<or> contains_str event_name ([char_of (197 :: nat), char_of (155 :: nat)] @ ''niadanie'')
           then meal_flags rest (True, has_lunch, has_dinner)
           else if contains_str event_name ''lunch'' \<or> contains_str event_name ''obiad''
           then meal_flags rest (has_breakfast, True, has_dinner)
           else if contains_str event_name ''dinner'' \<or> contains_str event_name ''kolacja''
           then meal_flags rest (has_breakfast, has_lunch, True)
           else meal_flags rest (has_breakfast, has_lunch, has_dinner)
      else meal_flags rest (has_breakfast, has_lunch, has_dinner))"

definition in_preferred :: "string \<Rightarrow> preferred_time \<Rightarrow> bool" where
  "in_preferred w p = (case p of PtStr s \<Rightarrow> contains_str s w | PtList l \<Rightarrow> w \<in> set l)"

definition activity_block ::
    "string \<Rightarrow> int \<Rightarrow> int \<Rightarrow> int \<Rightarrow> activity_goal \<Rightarrow> py_error + block option" where
  "activity_block weekday wake_time_minutes morning_routine_duration evening_routine_start activity =
     (let activity_name = opt_default (ag_name activity) ''Activity'';
          activity_duration = opt_default (ag_duration_minutes activity) 60;
          activity_frequency = py_lower (opt_default (ag_frequency activity) ''daily'');
          preferred_times = opt_default (ag_preferred_time activity) (PtList [''evening'']);
          should_schedule =
            (activity_frequency = ''daily''
             \<or> weekday \<in> set (split_comma activity_frequency)
             \<or> startswith activity_frequency (take 3 weekday))
      in if should_schedule
         then
           let activity_start =
                 (if in_preferred ''morning'' preferred_times
                  then wake_time_minutes + morning_routine_duration + 30
                  else if in_preferred ''evening'' preferred_times then 1080
                  else if in_preferred ''afternoon'' preferred_times then 900
                  else if in_preferred ''before_sleep'' preferred_times
                  then evening_routine_start - activity_duration - 30
                  else 1080)
           in map_sum id Some (filler_block ''activity'' activity_name activity_start activity_duration)
         else Inr None)"

definition priority_order :: "string \<Rightarrow> int" where
  "priority_order ty =
     (if ty = ''fixed_event'' then 5 else if ty = ''task'' then 4 else if ty = ''meal'' then 3
      else if ty = ''routine'' then 2 else if ty = ''activity'' then 1 else 0)"

definition blocks_overlap :: "block \<Rightarrow> block \<Rightarrow> bool" where
  "blocks_overlap a b = (max (fst a) (fst b) < min (fst (snd a)) (fst (snd b)))"

text \<open>The index of the first block already kept that the new block overlaps.\<close>

fun first_overlap :: "block \<Rightarrow> block list \<Rightarrow> nat option" where
  "first_overlap b [] = None"
| "first_overlap b (x # xs) =
     (if blocks_overlap b x then Some 0
      else (case first_overlap b xs of None \<Rightarrow> None | Some j \<Rightarrow> Some (Suc j)))"

definition resolve_step :: "block list \<Rightarrow> block \<Rightarrow> block list" where
  "resolve_step non_overlapping_blocks b =
     (case first_overlap b non_overlapping_blocks of
        None \<Rightarrow> non_overlapping_blocks @ [b]
      | Some j \<Rightarrow>
          if priority_order (item_type (snd (snd (non_overlapping_blocks ! j))))
               < priority_order (item_type (snd (snd b)))
          then non_overlapping_blocks[j := b]
          else non_overlapping_blocks)"

definition resolve_conflicts :: "block list \<Rightarrow> block list" where
  "resolve_conflicts blocks = foldl resolve_step [] blocks"

definition gap_item :: "int \<Rightarrow> int \<Rightarrow> py_error + block" where
  "gap_item prev_end start =
     (let gap_duration = start - prev_end;
          (break_type, break_name) =
            (if 120 \<le> gap_duration then (''free_time'', ''Free Time'')
             else if 45 \<le> gap_duration then (''relaxation'', ''Relaxation'')
             else if 15 \<le> gap_duration then (''short_break'', ''Short Break'')
             else (''quick_break'', ''Quick Break''))
      in case minutes_HM prev_end of
           Inl err \<Rightarrow> Inl err
         | Inr st \<Rightarrow>
             (case minutes_HM start of
                Inl err \<Rightarrow> Inl err
              | Inr et \<Rightarrow>
                  Inr (prev_end, start,
                       \<lparr>item_type = break_type, item_name = break_name,
                        item_start_time = st, item_end_time = et,
                        item_duration_minutes = gap_duration,
                        item_event_id = None, item_task_id = None\<rparr>)))"

definition trailing_gap :: "int \<Rightarrow> py_error + block" where
  "trailing_gap prev_end =
     (let gap_duration = 1440 - prev_end;
          (break_type, break_name) =
            (if gap_duration \<le> 30 then (''quick_break'', ''Quick Break'')
             else (''free_time'', ''Free Time''))
      in case minutes_HM prev_end of
           Inl err \<Rightarrow> Inl err
         | Inr st \<Rightarrow>
             Inr (prev_end, 1440,
                  \<lparr>item_type = break_type, item_name = break_name,
                   item_start_time = st, item_end_time = ''24:00'',
                   item_duration_minutes = gap_duration,
                   item_event_id = None, item_task_id = None\<rparr>))"

text \<open>
  The loop that inserts the breaks, then the break that closes the day. Each item of
  \<open>final\<close> is kept with the interval it was emitted for.
\<close>

fun fill_gaps :: "int \<Rightarrow> block list \<Rightarrow> py_error + block list" where
  "fill_gaps prev_end [] =
     (if prev_end < 1440
      then (case trailing_gap prev_end of Inl err \<Rightarrow> Inl err | Inr g \<Rightarrow> Inr [g])
      else Inr [])"
| "fill_gaps prev_end ((start, end, meta) # rest) =
     (case (if prev_end < start then map_sum id (\<lambda>g. [g]) (gap_item prev_end start) else Inr []) of
        Inl err \<Rightarrow> Inl err
      | Inr gap \<Rightarrow>
          (case fill_gaps (max prev_end end) rest of
             Inl err \<Rightarrow> Inl err
           | Inr final \<Rightarrow> Inr (gap @ (start, end, meta) # final)))"

text \<open>
  The routines, meals and activities appended to the sorted fixed-event and task blocks.
\<close>

definition planned_blocks ::
    "block list \<Rightarrow> schedule_input_data \<Rightarrow> sleep_metrics \<Rightarrow> py_error + block list" where
  "planned_blocks blocks1 input_data sleep =
     (let prefs = in_preferences input_data;
          meal_p = meals prefs;
          breakfast_duration = opt_default (breakfast_duration_minutes meal_p) 20;
          lunch_duration = opt_default (lunch_duration_minutes meal_p) 45;
          dinner_duration = opt_default (dinner_duration_minutes meal_p) 30;
          morning_routine_duration = opt_default (morning_duration_minutes (routines prefs)) 30;
          evening_routine_duration = opt_default (evening_duration_minutes (routines prefs)) 45;
          breakfast_min = meal_minutes (breakfast_time meal_p) ''07:30'' 450;
          lunch_min = meal_minutes (lunch_time meal_p) ''12:30'' 750;
          dinner_min = meal_minutes (dinner_time meal_p) ''19:00'' 1140;
          wake_time_minutes = time_to_total_minutes (ideal_wake_time sleep);
          bedtime_minutes = time_to_total_minutes (ideal_bedtime sleep);
          evening_routine_start = max 0 (bedtime_minutes - evening_routine_duration)
      in case collect (map_sum id Some)
                [filler_block ''routine'' ''Morning Routine'' wake_time_minutes morning_routine_duration,
                 mk_block ''routine'' ''Evening Routine'' evening_routine_start bedtime_minutes
                   evening_routine_duration] of
           Inl err \<Rightarrow> Inl err
         | Inr routine_blocks \<Rightarrow>
             let blocks2 = blocks1 @ routine_blocks;
                 (has_breakfast, has_lunch, has_dinner) = meal_flags blocks2 (False, False, False)
             in case collect (\<lambda>r. r)
                       [if has_breakfast then Inr None
                        else map_sum id Some
                               (filler_block ''meal'' ''Breakfast'' breakfast_min breakfast_duration),
                        if has_lunch then Inr None
                        else map_sum id Some (filler_block ''meal'' ''Lunch'' lunch_min lunch_duration),
                        if has_dinner then Inr None
                        else map_sum id Some (filler_block ''meal'' ''Dinner'' dinner_min dinner_duration)] of
                  Inl err \<Rightarrow> Inl err
                | Inr meal_blocks \<Rightarrow>
                    (case collect (activity_block (target_weekday input_data) wake_time_minutes
                                     morning_routine_duration evening_routine_start)
                            (activity_goals prefs) of
                       Inl err \<Rightarrow> Inl err
                     | Inr activity_blocks \<Rightarrow> Inr (blocks2 @ meal_blocks @ activity_blocks)))"

definition process_core_schedule_blocks ::
    "components \<Rightarrow> scheduled_task_info list \<Rightarrow> schedule_input_data \<Rightarrow> sleep_metrics
     \<Rightarrow> py_error + block list" where
  "process_core_schedule_blocks comps core_schedule input_data sleep =
     (case prepare_profile comps input_data of
        Inl err \<Rightarrow> Inl err
      | Inr profile \<Rightarrow>
          (case collect (\<lambda>fe. map_sum id Some (fixed_event_block fe))
                  (case prepare_solver_input comps input_data profile sleep of
                     None \<Rightarrow> [] | Some solver_in \<Rightarrow> fixed_events solver_in) of
             Inl err \<Rightarrow> Inl err
           | Inr fixed_blocks \<Rightarrow>
               (case planned_blocks
                       (sort_key fst (fixed_blocks @ map (task_block (in_tasks input_data)) core_schedule))
                       input_data sleep of
                  Inl err \<Rightarrow> Inl err
                | Inr blocks \<Rightarrow>
                    fill_gaps 0 (sort_key fst (resolve_conflicts (sort_key fst blocks))))))"

definition process_core_schedule ::
    "components \<Rightarrow> scheduled_task_info list \<Rightarrow> schedule_input_data \<Rightarrow> sleep_metrics
     \<Rightarrow> py_error + schedule_item list" where
  "process_core_schedule comps core_schedule input_data sleep =
     map_sum id (map (\<lambda>b. snd (snd b))) (process_core_schedule_blocks comps core_schedule input_data sleep)"

definition sum_durations :: "(schedule_item \<Rightarrow> bool) \<Rightarrow> schedule_item list \<Rightarrow> int" where
  "sum_durations P items = sum_list (map item_duration_minutes (filter P items))"

text \<open>\<open>round(x, 1)\<close>, on rationals.\<close>

definition round1 :: "rat \<Rightarrow> rat" where
  "round1 x = of_int (py_round (x * 10)) / 10"

definition calculate_metrics :: "schedule_item list \<Rightarrow> task list \<Rightarrow> schedule_metrics" where
  "calculate_metrics items ts =
     (let total_task = sum_durations (\<lambda>i. item_type i = ''task'') items;
          total_break = sum_durations
            (\<lambda>i. item_type i \<in> set [''break'', ''quick_break'', ''short_break'', ''relaxation'', ''free_time''])
            items;
          total_fixed = sum_durations (\<lambda>i. item_type i = ''fixed_event'') items;
          total_sleep = sum_durations
            (\<lambda>i. item_type i = ''fixed_event'' \<and> contains_str (opt_default (item_event_id i) []) ''sleep'')
            items;
          total_meal = sum_durations (\<lambda>i. item_type i = ''meal'') items;
          total_routine = sum_durations (\<lambda>i. item_type i = ''routine'') items;
          total_activity = sum_durations (\<lambda>i. item_type i = ''activity'') items;
          scheduled_ids = remdups (map item_task_id (filter (\<lambda>i. item_type i = ''task'') items));
          original_ids = remdups (map (\<lambda>t. Some (tk_id t)) (filter (\<lambda>t. \<not> tk_completed t) ts));
          unsch = int (length (filter (\<lambda>i. i \<notin> set scheduled_ids) original_ids));
          total_productive = total_task + total_activity;
          total_personal = total_meal + total_routine;
          total_rest = total_break + total_sleep
      in Computed
           \<lparr>total_task_minutes = total_task, total_break_minutes = total_break,
            total_fixed_minutes = total_fixed, total_sleep_minutes = total_sleep,
            total_meal_minutes = total_meal, total_routine_minutes = total_routine,
            total_activity_minutes = total_activity,
            total_productive_minutes = total_productive,
            total_personal_minutes = total_personal, total_rest_minutes = total_rest,
            unscheduled_tasks = unsch,
            task_completion_pct =
              (if original_ids \<noteq> []
               then of_nat (length scheduled_ids) / of_nat (length original_ids) * 100 else 100),
            work_life_balance =
              round1 (of_int total_personal / of_int (max 1 total_productive) * 100)\<rparr>)"

definition create_empty :: "schedule_input_data \<Rightarrow> message list \<Rightarrow> message \<Rightarrow> generated_schedule" where
  "create_empty input_data warnings error_msg =
     \<lparr>gs_user_id = in_user_id input_data, gs_scheduled_items = [],
      gs_metrics = StatusFailed, gs_explanation_error = Some error_msg,
      gs_warnings = warnings @ [error_msg]\<rparr>"

text \<open>
  \<open>generate_schedule\<close>: each \<open>Inl\<close> of a stage is an exception that reaches the
  \<open>except Exception\<close> of the method.
\<close>

definition generate_schedule :: "components \<Rightarrow> schedule_input_data \<Rightarrow> generated_schedule" where
  "generate_schedule comps input_data =
     (let warnings = []
      in case prepare_profile comps input_data of
           Inl err \<Rightarrow> create_empty input_data warnings (InternalError err)
         | Inr profile \<Rightarrow>
             let sleep = calculate_sleep comps profile input_data
             in case prepare_solver_input comps input_data profile sleep of
                  None \<Rightarrow> create_empty input_data warnings SolverInputError
                | Some solver_input \<Rightarrow>
                    (case solver_solve comps solver_input of
                       Inl err \<Rightarrow> create_empty input_data warnings (InternalError err)
                     | Inr None \<Rightarrow>
                         create_empty input_data (warnings @ [NoCoreSchedule]) SolverFailed
                     | Inr (Some core_schedule) \<Rightarrow>
                         (case llm_refine comps of
                            Some refine \<Rightarrow>
                              (case refine core_schedule input_data profile sleep of
                                 Inl err \<Rightarrow> create_empty input_data warnings (InternalError err)
                               | Inr (final_items, metrics) \<Rightarrow>
                                   \<lparr>gs_user_id = in_user_id input_data,
                                    gs_scheduled_items = final_items, gs_metrics = metrics,
                                    gs_explanation_error = None, gs_warnings = warnings\<rparr>)
                          | None \<Rightarrow>
                              (case process_core_schedule comps core_schedule input_data sleep of
                                 Inl err \<Rightarrow> create_empty input_data warnings (InternalError err)
                               | Inr final_items \<Rightarrow>
                                   \<lparr>gs_user_id = in_user_id input_data,
                                    gs_scheduled_items = final_items,
                                    gs_metrics = calculate_metrics final_items (in_tasks input_data),
                                    gs_explanation_error = None, gs_warnings = warnings\<rparr>))))"

text \<open>
  Components for running the orchestrator on concrete inputs: the repository's
  \<open>create_chronotype_profile\<close> has no \<open>age\<close> parameter, the sleep window and the solver's
  answer are given.
\<close>

definition plain_sleep_metrics :: "pytime \<Rightarrow> pytime \<Rightarrow> sleep_metrics" where
  "plain_sleep_metrics bed wake =
     \<lparr>ideal_duration = Timedelta (8 * 3600 * 1000000), ideal_bedtime = bed, ideal_wake_time = wake,
      actual_duration = None, actual_bedtime = None, actual_wake_time = None,
      sleep_quality_score = None, sleep_deficit = None\<rparr>"

definition stub_components ::
    "sleep_metrics \<Rightarrow> (solver_input \<Rightarrow> scheduled_task_info list option) \<Rightarrow> components" where
  "stub_components sleep solver =
     \<lparr>determine_chronotype_from_meq =
        (\<lambda>meq. if 16 \<le> meq \<and> meq \<le> 86
               then Inr (if meq \<le> 41 then NIGHT_OWL else if meq \<le> 58 then INTERMEDIATE else EARLY_BIRD)
               else Inl ValueError),
      create_chronotype_profile =
        (\<lambda>uid c src age_kw.
           case age_kw of
             Some a \<Rightarrow> Inl TypeError
           | None \<Rightarrow> Inr (ChronotypeProfile uid c (1 / 2) 1 None None [] None (Some src))),
      calculate_sleep_window = (\<lambda>age c need scale wake. Inr sleep),
      get_energy_pattern = (\<lambda>profile. Inr []),
      solver_solve = (\<lambda>si. Inr (solver si)),
      llm_refine = None\<rparr>"

definition no_meal_prefs :: meal_prefs where
  "no_meal_prefs = \<lparr>breakfast_time = None, breakfast_duration_minutes = None, lunch_time = None,
     lunch_duration_minutes = None, dinner_time = None, dinner_duration_minutes = None\<rparr>"

definition plain_preferences :: "string option \<Rightarrow> preferences" where
  "plain_preferences wake =
     \<lparr>preferred_wake_time = wake, sleep_need_scale = None, chronotype_scale = None,
      meals = no_meal_prefs,
      routines = \<lparr>morning_duration_minutes = None, evening_duration_minutes = None\<rparr>,
      activity_goals = []\<rparr>"

definition s1_input :: schedule_input_data where
  "s1_input =
     \<lparr>in_user_id = ''u1'', target_weekday = ''thu'', target_day_start_us = 0, in_tasks = [],
      fixed_events_input = [\<lparr>fe_id = Some ''lunch'', fe_start_time = Some ''12:30'', fe_end_time = Some ''13:15''\<rparr>],
      in_preferences = plain_preferences (Some ''07:00''),
      profile_age = Some 30, profile_meq_score = Some 55\<rparr>"

definition late_task_input :: schedule_input_data where
  "late_task_input =
     \<lparr>in_user_id = ''u1'', target_weekday = ''thu'', target_day_start_us = 0,
      in_tasks =
        [\<lparr>tk_id = ''t1'', tk_title = ''Report'', tk_duration = DurTimedelta (Timedelta (60 * 60000000)),
          tk_completed = False, tk_priority = 3, tk_energy_level = 2, tk_earliest_start = EsNone,
          tk_deadline = None, tk_dependencies = []\<rparr>],
      fixed_events_input =
        [\<lparr>fe_id = Some ''night'', fe_start_time = Some ''00:00'', fe_end_time = Some ''01:00''\<rparr>,
         \<lparr>fe_id = Some ''work'', fe_start_time = Some ''09:00'', fe_end_time = Some ''23:00''\<rparr>],
      in_preferences = plain_preferences (Some ''09:00''),
      profile_age = Some 30, profile_meq_score = Some 50\<rparr>"

definition late_sleep :: sleep_metrics where
  "late_sleep = plain_sleep_metrics (mk_time 1 0) (mk_time 9 0)"

definition late_engine :: cp_engine where
  "late_engine m = (OPTIMAL, \<lambda>i. 1380)"

definition late_components :: components where
  "late_components = stub_components late_sleep (solve late_engine default_objective_weights)"


definition schedule_failed :: "generated_schedule \<Rightarrow> bool" where
  "schedule_failed g =
     (gs_scheduled_items g = [] \<and> gs_metrics g = StatusFailed \<and> gs_warnings g \<noteq> [])"

text \<open>
  Coverage: sorted by start, the intervals run from 0 to 1440, each starting where the
  one before it ends.
\<close>

fun chained :: "int \<Rightarrow> (int \<times> int) list \<Rightarrow> bool" where
  "chained p [] = (p = 1440)"
| "chained p ((s, e) # rest) = (s = p \<and> chained e rest)"

definition tiles_day :: "(int \<times> int) list \<Rightarrow> bool" where
  "tiles_day ivs = (ivs \<noteq> [] \<and> chained 0 (sort_key fst ivs))"

definition block_interval :: "block \<Rightarrow> int \<times> int" where
  "block_interval b = (fst b, fst (snd b))"



text \<open>The solver input of \<open>late_task_input\<close> and the constraint model \<open>solve\<close> builds for it.\<close>

definition late_solver_input :: solver_input where
  "late_solver_input =
     \<lparr>tasks =
        [\<lparr>task_id = ''t1'', duration_minutes = 60, priority = 3, energy_level = 2,
          earliest_start_minutes = None, latest_end_minutes = None, dependencies = []\<rparr>],
      fixed_events =
        [\<lparr>event_id = Some ''night'', start_minutes = 0, end_minutes = 60\<rparr>,
         \<lparr>event_id = Some ''work'', start_minutes = 540, end_minutes = 1380\<rparr>,
         \<lparr>event_id = Some ''sleep'', start_minutes = 60, end_minutes = 540\<rparr>],
      day_start_minutes = 0, day_end_minutes = 1440, user_energy_pattern = []\<rparr>"

definition late_model :: "objective_weights \<Rightarrow> cp_model" where
  "late_model w =
     \<lparr>cp_vars = fst (create_task_vars late_solver_input (tasks late_solver_input) ([], [])),
      cp_fixed = clipped_fixed_events late_solver_input,
      cp_weights = w, cp_pattern = user_energy_pattern late_solver_input\<rparr>"

definition interval_of_block :: "block \<Rightarrow> int \<times> int" where
  "interval_of_block b = (fst b, fst (snd b))"

section \<open>Properties of the orchestrator\<close>







lemma create_empty_failed: "schedule_failed (create_empty input_data warnings msg)"
  by (simp add: schedule_failed_def create_empty_def)

text \<open>
  C2. \<open>generate_schedule\<close> returns a schedule for every input and whatever the components
  do: when the solver reports no solution the schedule has no items, status "failed" and
  two warnings; and in every case the schedule is either such a failed one or the result of
  a run in which no stage raised.
\<close>

theorem generate_schedule_failed_or_complete:
  "(\<forall>profile si.
      prepare_profile comps input_data = Inr profile \<and>
      prepare_solver_input comps input_data profile (calculate_sleep comps profile input_data) = Some si \<and>
      solver_solve comps si = Inr None \<longrightarrow>
        gs_scheduled_items (generate_schedule comps input_data) = [] \<and>
        gs_metrics (generate_schedule comps input_data) = StatusFailed \<and>
        gs_warnings (generate_schedule comps input_data) = [NoCoreSchedule, SolverFailed]) \<and>
   (schedule_failed (generate_schedule comps input_data) \<or>
    (\<exists>profile si core.
       prepare_profile comps input_data = Inr profile \<and>
       prepare_solver_input comps input_data profile (calculate_sleep comps profile input_data) = Some si \<and>
       solver_solve comps si = Inr (Some core) \<and>
       gs_warnings (generate_schedule comps input_data) = [] \<and>
       gs_explanation_error (generate_schedule comps input_data) = None))"
proof (intro conjI allI impI)
  fix profile si
  assume "prepare_profile comps input_data = Inr profile \<and>
      prepare_solver_input comps input_data profile (calculate_sleep comps profile input_data) = Some si \<and>
      solver_solve comps si = Inr None"
  then have g: "generate_schedule comps input_data = create_empty input_data [NoCoreSchedule] SolverFailed"
    by (simp add: generate_schedule_def Let_def)
  show "gs_scheduled_items (generate_schedule comps input_data) = []"
    and "gs_metrics (generate_schedule comps input_data) = StatusFailed"
    and "gs_warnings (generate_schedule comps input_data) = [NoCoreSchedule, SolverFailed]"
    unfolding g by (simp_all add: create_empty_def)
next
  show "schedule_failed (generate_schedule comps input_data) \<or>
    (\<exists>profile si core.
       prepare_profile comps input_data = Inr profile \<and>
       prepare_solver_input comps input_data profile (calculate_sleep comps profile input_data) = Some si \<and>
       solver_solve comps si = Inr (Some core) \<and>
       gs_warnings (generate_schedule comps input_data) = [] \<and>
       gs_explanation_error (generate_schedule comps input_data) = None)"
    by (auto simp: generate_schedule_def Let_def create_empty_failed
        split: sum.splits option.splits prod.splits)
qed

lemma start_domain_tasks_update [simp]: "start_domain (si\<lparr>tasks := ts\<rparr>) t = start_domain si t"
  by (simp add: start_domain_def)











theorem generate_schedule_failed_or_complete_witness:
  "gs_scheduled_items (generate_schedule (stub_components fallback_sleep_metrics (\<lambda>si. None)) s1_input) = [] \<and>
   gs_metrics (generate_schedule (stub_components fallback_sleep_metrics (\<lambda>si. None)) s1_input) = StatusFailed \<and>
   gs_warnings (generate_schedule (stub_components fallback_sleep_metrics (\<lambda>si. None)) s1_input)
     = [NoCoreSchedule, SolverFailed]"
proof -
  let ?c = "stub_components fallback_sleep_metrics (\<lambda>si. None)"
  obtain profile where p: "prepare_profile ?c s1_input = Inr profile"
    by (simp add: prepare_profile_def stub_components_def s1_input_def)
  obtain si where s: "prepare_solver_input ?c s1_input profile (calculate_sleep ?c profile s1_input) = Some si"
  proof -
    have "prepare_solver_input ?c s1_input profile fallback_sleep_metrics \<noteq> None"
      by code_simp
    moreover have "calculate_sleep ?c profile s1_input = fallback_sleep_metrics"
      by (simp add: calculate_sleep_def stub_components_def Let_def split: option.splits sum.splits)
    ultimately show ?thesis using that by auto
  qed
  have n: "solver_solve ?c si = Inr None" by (simp add: stub_components_def)
  from generate_schedule_failed_or_complete [of ?c s1_input, THEN conjunct1, rule_format, of profile si]
    p s n
  show ?thesis by simp
qed

lemma late_solver_input_prepared:
  "prepare_solver_input late_components late_task_input
     (ChronotypeProfile ''u1'' INTERMEDIATE (1 / 2) 1 None None [] None (Some ''meq'')) late_sleep
   = Some late_solver_input"
  by code_simp

lemma late_vars:
  "fst (create_task_vars late_solver_input (tasks late_solver_input) ([], []))
     = [(''t1'', hd (tasks late_solver_input), 0, 1380)]"
  by (simp add: late_solver_input_def start_domain_def py_or_def)

lemma late_fixed: "clipped_fixed_events late_solver_input = [(0, 60), (540, 1380), (60, 540)]"
  by (simp add: late_solver_input_def clipped_fixed_events_def)

lemma late_model_eq:
  "late_model w =
     \<lparr>cp_vars = [(''t1'', hd (tasks late_solver_input), 0, 1380)],
      cp_fixed = [(0, 60), (540, 1380), (60, 540)],
      cp_weights = w, cp_pattern = user_energy_pattern late_solver_input\<rparr>"
  by (simp add: late_model_def late_vars late_fixed)

lemma late_duration: "duration_minutes (hd (tasks late_solver_input)) = 60"
  by (simp add: late_solver_input_def)

lemma late_model_forces_start:
  assumes "cp_satisfied (late_model w) val"
  shows "val ''t1'' = 1380"
proof -
  from assms [unfolded late_model_eq] have b: "0 \<le> val ''t1''" "val ''t1'' \<le> 1380"
    and n: "no_overlap [(val ''t1'', val ''t1'' + 60), (0, 60), (540, 1380), (60, 540)]"
    by (simp_all add: cp_satisfied_def Let_def late_duration)
  from n have "\<not> overlapping (val ''t1'', val ''t1'' + 60) (0, 60)"
    "\<not> overlapping (val ''t1'', val ''t1'' + 60) (540, 1380)"
    "\<not> overlapping (val ''t1'', val ''t1'' + 60) (60, 540)"
    by simp_all
  with b show ?thesis
    by (auto simp: overlapping_def)
qed

lemma late_solve_result:
  assumes "engine (late_model w) = (st, val)" and "st = OPTIMAL \<or> st = FEASIBLE"
    and "cp_satisfied (late_model w) val"
  shows "solve engine w late_solver_input
           = Some [\<lparr>info_task_id = ''t1'', start_time = mk_time 23 0, end_time = mk_time 0 0\<rparr>]"
proof -
  have v: "val ''t1'' = 1380" using assms(3) by (rule late_model_forces_start)
  have t: "tasks late_solver_input \<noteq> []" by (simp add: late_solver_input_def)
  have m: "\<lparr>cp_vars = [(''t1'', hd (tasks late_solver_input), 0, 1380)],
            cp_fixed = clipped_fixed_events late_solver_input, cp_weights = w,
            cp_pattern = user_energy_pattern late_solver_input\<rparr> = late_model w"
    by (simp add: late_model_def late_vars)
  note d = late_duration
  have s: "solve engine w late_solver_input
        = solve_model engine w late_solver_input [(''t1'', hd (tasks late_solver_input), 0, 1380)]"
  proof -
    have "solve engine w late_solver_input
        = solve_model engine w late_solver_input
            (fst (create_task_vars late_solver_input (tasks late_solver_input) ([], [])))"
      using t by (simp add: solve_def split: prod.splits)
    then show ?thesis unfolding late_vars .
  qed
  show ?thesis
    unfolding s solve_model_def
    using assms(2)
    by (auto simp: m assms(1) Let_def v d List.map_filter_def total_minutes_to_time_int mk_time_def)
qed

text \<open>
  C1 fails on the code. One 60-minute task, fixed events 00:00 to 01:00 and 09:00 to 23:00,
  sleep from 01:00 to 09:00: the only free hour is 23:00 to 24:00, every assignment that
  satisfies the constraints starts the task at minute 1380, and the solver reports its end,
  minute 1440, as the time 00:00. The schedule returned is not a failed one; its task item
  runs from "23:00" to "00:00" with duration -1380, and the closing free-time item covers
  23:00 to 24:00 again, so the items do not tile the day.
\<close>

theorem task_ending_at_midnight_breaks_coverage:
  "solve late_engine default_objective_weights late_solver_input
     = Some [\<lparr>info_task_id = ''t1'', start_time = mk_time 23 0, end_time = mk_time 0 0\<rparr>] \<and>
   gs_metrics (generate_schedule late_components late_task_input) \<noteq> StatusFailed \<and>
   map (\<lambda>i. (item_type i, item_start_time i, item_end_time i, item_duration_minutes i))
     (gs_scheduled_items (generate_schedule late_components late_task_input))
     = [(''fixed_event'', ''00:00'', ''01:00'', 60), (''fixed_event'', ''01:00'', ''09:00'', 480),
        (''fixed_event'', ''09:00'', ''23:00'', 840), (''task'', ''23:00'', ''00:00'', - 1380),
        (''free_time'', ''23:00'', ''24:00'', 60)] \<and>
   map_sum id (map interval_of_block)
     (process_core_schedule_blocks late_components
        [\<lparr>info_task_id = ''t1'', start_time = mk_time 23 0, end_time = mk_time 0 0\<rparr>]
        late_task_input late_sleep)
     = Inr [(0, 60), (60, 540), (540, 1380), (1380, 0), (1380, 1440)] \<and>
   \<not> tiles_day [(0, 60), (60, 540), (540, 1380), (1380, 0), (1380, 1440)]"
  by code_simp

end
